theory Spec2Isabelle
  imports Main
begin

section \<open>ext/block.c: the per-kind instantiation of the block template\<close>

text \<open>
  \<^verbatim>\<open>ext/block.c\<close> holds no C function of its own. After its header includes it
  consists of three groups of preprocessor directives,

  \<^verbatim>\<open>#define BASE_DOUBLE / #include "templates_on.h" / #include "block_source.c" /
  #include "templates_off.h" / #undef BASE_DOUBLE\<close>

  and the same for \<^verbatim>\<open>BASE_INT\<close> and \<^verbatim>\<open>BASE_UCHAR\<close>. The program of this file is
  therefore the directive list itself; its semantics is the C preprocessor's handling of
  \<^verbatim>\<open>#define\<close>, \<^verbatim>\<open>#undef\<close>, \<^verbatim>\<open>#ifdef\<close> and \<^verbatim>\<open>#include\<close> on the set of defined macro
  names.
\<close>

subsection \<open>Element kinds\<close>

text \<open>
  The three element kinds of the block type: C's \<^verbatim>\<open>double\<close>, \<^verbatim>\<open>int\<close> and
  \<^verbatim>\<open>unsigned char\<close>, under the names the specification gives them.
\<close>

datatype kind = Float64 | Int32 | UInt8

text \<open>The macro of \<^verbatim>\<open>block.c\<close> that selects each kind (lines 27, 33 and 39).\<close>

fun base_macro :: "kind \<Rightarrow> string" where
  "base_macro Float64 = ''BASE_DOUBLE''"
| "base_macro Int32 = ''BASE_INT''"
| "base_macro UInt8 = ''BASE_UCHAR''"

definition all_kinds :: "kind list" where
  "all_kinds = [Float64, Int32, UInt8]"

subsection \<open>Directives and the text of block.c\<close>

datatype directive =
    Include string
  | Define string
  | Undef string
  | Ifdef string "directive list"

definition templates_on :: string where
  "templates_on = ''templates_on.h''"

definition template_source :: string where
  "template_source = ''block_source.c''"

definition templates_off :: string where
  "templates_off = ''templates_off.h''"

text \<open>Lines 17 to 43 of \<^verbatim>\<open>block.c\<close>, directive by directive, in the order of the file.\<close>

definition block_c :: "directive list" where
  "block_c =
    [ Include ''rb_gsl_config.h'',
      Include ''rb_gsl_array.h'',
      Include ''rb_gsl_histogram.h'',
      Include ''rb_gsl_complex.h'',
      Include ''rb_gsl_poly.h'',
      Ifdef ''HAVE_NARRAY_H'' [Include ''rb_gsl_with_narray.h''],
      Define ''BASE_DOUBLE'',
      Include templates_on,
      Include template_source,
      Include templates_off,
      Undef ''BASE_DOUBLE'',
      Define ''BASE_INT'',
      Include templates_on,
      Include template_source,
      Include templates_off,
      Undef ''BASE_INT'',
      Define ''BASE_UCHAR'',
      Include templates_on,
      Include template_source,
      Include templates_off,
      Undef ''BASE_UCHAR'' ]"

subsection \<open>The preprocessor on the set of defined macros\<close>

text \<open>
  The state of the preprocessor, as far as \<^verbatim>\<open>#ifdef\<close> can see it, is the set of macro
  names that are defined. The model also keeps a log: every file that \<^verbatim>\<open>block.c\<close>
  includes, in order, each with the macros that were defined at the \<^verbatim>\<open>#include\<close> line.

  None of the included files is part of the sources at hand, so what an included file
  does to the macro set is a parameter: \<open>hdr f S\<close> is the set of macros defined after
  file \<open>f\<close> has been processed starting from the set \<open>S\<close>.
\<close>

type_synonym headers = "string \<Rightarrow> string set \<Rightarrow> string set"

record pp_state =
  macros :: "string set"
  inclusions :: "(string \<times> string set) list"

fun pp :: "headers \<Rightarrow> directive \<Rightarrow> pp_state \<Rightarrow> pp_state"
  and pp_all :: "headers \<Rightarrow> directive list \<Rightarrow> pp_state \<Rightarrow> pp_state" where
  "pp hdr (Include f) s =
     s\<lparr>macros := hdr f (macros s), inclusions := inclusions s @ [(f, macros s)]\<rparr>"
| "pp hdr (Define m) s = s\<lparr>macros := insert m (macros s)\<rparr>"
| "pp hdr (Undef m) s = s\<lparr>macros := macros s - {m}\<rparr>"
| "pp hdr (Ifdef m ds) s = (if m \<in> macros s then pp_all hdr ds s else s)"
| "pp_all hdr [] s = s"
| "pp_all hdr (d # ds) s = pp_all hdr ds (pp hdr d s)"

text \<open>
  Preprocessing \<^verbatim>\<open>block.c\<close> when the build predefines the macros \<open>S0\<close>
  (for instance through \<^verbatim>\<open>-D\<close> options).
\<close>

definition preprocess :: "headers \<Rightarrow> string set \<Rightarrow> pp_state" where
  "preprocess hdr S0 = pp_all hdr block_c \<lparr>macros = S0, inclusions = []\<rparr>"

text \<open>The kinds whose selecting macro is defined in a macro set.\<close>

definition kinds_selected :: "string set \<Rightarrow> kind list" where
  "kinds_selected S = filter (\<lambda>k. base_macro k \<in> S) all_kinds"

text \<open>
  The inclusions of the template source \<^verbatim>\<open>block_source.c\<close>, each reduced to the kinds
  selected at that point.
\<close>

definition instantiations :: "headers \<Rightarrow> string set \<Rightarrow> kind list list" where
  "instantiations hdr S0 =
     map (\<lambda>e. kinds_selected (snd e))
       (filter (\<lambda>e. fst e = template_source) (inclusions (preprocess hdr S0)))"

text \<open>
  What the theorems ask of the files that are not at hand: no included file defines or
  undefines one of the three kind-selecting macros. (GSL's \<^verbatim>\<open>templates_on.h\<close> tests these
  macros and defines \<^verbatim>\<open>BASE\<close>, \<^verbatim>\<open>SHORT\<close> and their companions from them;
  \<^verbatim>\<open>templates_off.h\<close> undefines those again.)
\<close>

definition kind_neutral :: "headers \<Rightarrow> bool" where
  "kind_neutral hdr = (\<forall>f S k. (base_macro k \<in> hdr f S) = (base_macro k \<in> S))"

text \<open>
  A sample of what the included files do, used to exercise the theorems: the
  configuration header may switch NArray support on, \<^verbatim>\<open>templates_on.h\<close> defines the
  template macros when a kind is selected and \<^verbatim>\<open>templates_off.h\<close> removes them.
\<close>

definition sample_headers :: headers where
  "sample_headers f S =
     (if f = ''rb_gsl_config.h'' then insert ''HAVE_NARRAY_H'' S
      else if f = templates_on \<and> kinds_selected S \<noteq> []
        then S \<union> {''BASE'', ''SHORT'', ''ATOMIC''}
      else if f = templates_off then S - {''BASE'', ''SHORT'', ''ATOMIC''}
      else S)"

subsection \<open>The include log, reduced to kinds\<close>

text \<open>
  The include log of a state with each macro set reduced to the kinds selected in it, and
  the reduced log of \<^verbatim>\<open>block.c\<close> as a whole.
\<close>

definition reduce_log :: "pp_state \<Rightarrow> (string \<times> kind list) list" where
  "reduce_log s = map (\<lambda>e. (fst e, kinds_selected (snd e))) (inclusions s)"

definition kind_log :: "headers \<Rightarrow> string set \<Rightarrow> (string \<times> kind list) list" where
  "kind_log hdr S0 = reduce_log (preprocess hdr S0)"

text \<open>
  The two parts of the file: the header includes (lines 17 to 25), and the five lines
  that instantiate the template for one kind (lines 27 to 31, 33 to 37, 39 to 43).
\<close>

definition prelude :: "directive list" where
  "prelude = take 6 block_c"

definition instantiate :: "kind \<Rightarrow> directive list" where
  "instantiate k =
     [Define (base_macro k), Include templates_on, Include template_source,
      Include templates_off, Undef (base_macro k)]"

text \<open>The reduced logs these two parts leave behind.\<close>

definition prelude_log :: "(string \<times> kind list) list" where
  "prelude_log = map (\<lambda>f. (f, []))
     [''rb_gsl_config.h'', ''rb_gsl_array.h'', ''rb_gsl_histogram.h'', ''rb_gsl_complex.h'',
      ''rb_gsl_poly.h'']"

definition template_log :: "(string \<times> kind list) list" where
  "template_log =
     concat (map (\<lambda>k. [(templates_on, [k]), (template_source, [k]), (templates_off, [k])])
       all_kinds)"

section \<open>The buffer the template is said to provide\<close>

text \<open>
  Modelled from the spec: \<^verbatim>\<open>block_source.c\<close>, the template that \<^verbatim>\<open>block.c\<close> includes and
  that would define the buffer operations, is not among the sources. The definitions of
  this section follow sections 3, 4.1 and 7 of the specification for the data of a Buffer,
  for \<open>allocate\<close> and for \<open>get\<close>, and nothing else.
\<close>

text \<open>Modelled from the spec: the failure taxonomy of section 7.\<close>

datatype error = AllocationFailure | OutOfRange | InvalidRange | KindMismatch | ImmutableBuffer

text \<open>
  Modelled from the spec: the size of one element in bytes (section 6: IEEE-754 double,
  fixed-width 32-bit integer, single byte).
\<close>

fun element_size :: "kind \<Rightarrow> nat" where
  "element_size Float64 = 8"
| "element_size Int32 = 4"
| "element_size UInt8 = 1"

text \<open>
  Modelled from the spec: a Buffer has an element kind, an element count (a non-negative
  integer), a storage pointer (\<open>None\<close> is the null pointer) and an ownership flag.
\<close>

record buffer =
  elem_kind :: kind
  count :: nat
  storage :: "nat option"
  owner :: bool

text \<open>
  Modelled from the spec: the storage the buffers point into. A region is a contiguous
  run of elements at an address; \<open>avail\<close> is the number of bytes a storage request can
  still be given, so that \<open>AllocationFailure\<close> (a storage request that cannot be
  satisfied) has a place in the model. The element type \<open>'v\<close> is left open.
\<close>

record 'v memory =
  regions :: "nat \<rightharpoonup> 'v list"
  avail :: nat
  next_addr :: nat

text \<open>
  Modelled from the spec: \<open>allocate(kind, count)\<close> gives a new owning Buffer with \<open>count\<close>
  elements of \<open>kind\<close> on storage of \<open>count \<times> element_size(kind)\<close> bytes. The contents
  are unspecified: \<open>junk\<close> is whatever the fresh storage happens to hold. A count of zero
  gives a valid, zero-length, owning Buffer whose storage is never dereferenced (here: the
  null pointer, and no region is taken).
\<close>

definition allocate ::
  "(nat \<Rightarrow> 'v) \<Rightarrow> 'v memory \<Rightarrow> kind \<Rightarrow> nat \<Rightarrow> error + (buffer \<times> 'v memory)" where
  "allocate junk h k n =
     (if avail h < n * element_size k then Inl AllocationFailure
      else if n = 0 then
        Inr (\<lparr>elem_kind = k, count = 0, storage = None, owner = True\<rparr>, h)
      else
        Inr (\<lparr>elem_kind = k, count = n, storage = Some (next_addr h), owner = True\<rparr>,
             h\<lparr>regions := (regions h)(next_addr h \<mapsto> map junk [0..<n]),
               avail := avail h - n * element_size k,
               next_addr := Suc (next_addr h)\<rparr>))"

text \<open>
  Modelled from the spec: \<open>get(index)\<close> gives the element at \<open>index\<close> and fails with
  \<open>OutOfRange\<close> when \<open>index \<ge> count\<close> or \<open>index < 0\<close>. The specification says nothing
  about a Buffer whose pointer is null or leads outside live storage (natively that read
  is undefined); the model has to return something there and reports \<open>OutOfRange\<close> too.
\<close>

definition get :: "'v memory \<Rightarrow> buffer \<Rightarrow> int \<Rightarrow> error + 'v" where
  "get h b i =
     (if i < 0 \<or> int (count b) \<le> i then Inl OutOfRange
      else
        (case storage b of
           None \<Rightarrow> Inl OutOfRange
         | Some a \<Rightarrow>
             (case regions h a of
                None \<Rightarrow> Inl OutOfRange
              | Some cells \<Rightarrow>
                  if nat i < length cells then Inr (cells ! nat i) else Inl OutOfRange)))"

text \<open>A memory with room for 64 bytes and nothing allocated, to exercise the theorem.\<close>

definition empty_memory :: "int memory" where
  "empty_memory = \<lparr>regions = Map.empty, avail = 64, next_addr = 0\<rparr>"

section \<open>Properties of block.c\<close>

subsection \<open>Running the two parts of the file\<close>

lemma block_c_split:
  "block_c = prelude @ instantiate Float64 @ instantiate Int32 @ instantiate UInt8"
  by (simp add: block_c_def prelude_def instantiate_def)

lemma pp_all_append: "pp_all hdr (xs @ ys) s = pp_all hdr ys (pp_all hdr xs s)"
  by (induction xs arbitrary: s) simp_all

lemma kinds_selected_nil: "(kinds_selected S = []) = (\<forall>k. base_macro k \<notin> S)"
proof -
  have "set all_kinds = UNIV"
    using kind.exhaust by (auto simp: all_kinds_def)
  then show ?thesis
    by (simp add: kinds_selected_def filter_empty_conv)
qed

lemma kinds_selected_hdr: "kind_neutral hdr \<Longrightarrow> kinds_selected (hdr f S) = kinds_selected S"
  by (simp add: kinds_selected_def kind_neutral_def)

lemma kinds_selected_define:
  "kinds_selected S = [] \<Longrightarrow> kinds_selected (insert (base_macro k) S) = [k]"
  by (cases k) (simp_all add: kinds_selected_nil, simp_all add: kinds_selected_def all_kinds_def)

lemma kinds_selected_undef:
  "kinds_selected S = [k] \<Longrightarrow> kinds_selected (S - {base_macro k}) = []"
  by (cases k) (auto simp add: kinds_selected_def all_kinds_def split: if_splits)

text \<open>
  One instantiation, started with no kind selected: it logs its three includes with
  exactly the kind \<open>k\<close> selected and ends with no kind selected.
\<close>

lemma instantiate_run:
  assumes "kind_neutral hdr" "kinds_selected (macros s) = []"
  shows "kinds_selected (macros (pp_all hdr (instantiate k) s)) = []"
    and "reduce_log (pp_all hdr (instantiate k) s)
          = reduce_log s @ [(templates_on, [k]), (template_source, [k]), (templates_off, [k])]"
  using assms
  by (simp_all add: instantiate_def reduce_log_def kinds_selected_hdr kinds_selected_define
      kinds_selected_undef)

text \<open>The header includes: whether NArray support is configured decides the sixth entry.\<close>

lemma prelude_run:
  assumes "kind_neutral hdr" "kinds_selected S0 = []"
  shows "kinds_selected (macros (pp_all hdr prelude \<lparr>macros = S0, inclusions = []\<rparr>)) = []"
    and "reduce_log (pp_all hdr prelude \<lparr>macros = S0, inclusions = []\<rparr>) = prelude_log
       \<or> reduce_log (pp_all hdr prelude \<lparr>macros = S0, inclusions = []\<rparr>)
            = prelude_log @ [(''rb_gsl_with_narray.h'', [])]"
  using assms
  by (simp_all add: prelude_def block_c_def reduce_log_def prelude_log_def kinds_selected_hdr)

lemma kind_log_eq:
  assumes "kind_neutral hdr" "kinds_selected S0 = []"
  shows "kind_log hdr S0 = prelude_log @ template_log
       \<or> kind_log hdr S0 = prelude_log @ (''rb_gsl_with_narray.h'', []) # template_log"
  using prelude_run[OF assms]
  by (auto simp add: kind_log_def preprocess_def block_c_split pp_all_append
        instantiate_run[OF assms(1)] template_log_def all_kinds_def)

lemma final_clean:
  assumes "kind_neutral hdr" "kinds_selected S0 = []"
  shows "kinds_selected (macros (preprocess hdr S0)) = []"
  using prelude_run(1)[OF assms]
  by (simp add: preprocess_def block_c_split pp_all_append instantiate_run[OF assms(1)])

subsection \<open>Facts about the concrete lists\<close>

lemma all_less_upt: "(\<forall>i<n. P i) = list_all P [0..<n]"
  by (auto simp: list_all_iff)

lemma instantiations_kind_log:
  "instantiations hdr S0 = map snd (filter (\<lambda>e. fst e = template_source) (kind_log hdr S0))"
  by (simp add: instantiations_def kind_log_def reduce_log_def filter_map comp_def)

lemma names_distinct:
  "templates_on \<noteq> template_source" "templates_off \<noteq> template_source"
  "templates_on \<noteq> templates_off" "''rb_gsl_with_narray.h'' \<noteq> template_source"
  by (simp_all add: templates_on_def templates_off_def template_source_def)

lemma prelude_log_no_template: "filter (\<lambda>e. fst e = template_source) prelude_log = []"
  by (simp add: prelude_log_def template_source_def)

lemma template_log_filter:
  "map snd (filter (\<lambda>e. fst e = template_source) template_log) = [[Float64], [Int32], [UInt8]]"
  by (simp add: template_log_def all_kinds_def names_distinct)

lemma log_bracketed:
  assumes "L = prelude_log @ template_log
         \<or> L = prelude_log @ (''rb_gsl_with_narray.h'', []) # template_log"
  shows "\<forall>i<length L. fst (L ! i) = template_source \<longrightarrow>
     (\<exists>k\<in>set all_kinds. snd (L ! i) = [k]) \<and> 0 < i \<and> Suc i < length L
     \<and> L ! (i - 1) = (templates_on, snd (L ! i))
     \<and> L ! Suc i = (templates_off, snd (L ! i))"
  using assms
proof
  assume "L = prelude_log @ template_log"
  then show ?thesis
    by (simp add: all_less_upt prelude_log_def template_log_def all_kinds_def upt_rec
        templates_on_def templates_off_def template_source_def)
next
  assume "L = prelude_log @ (''rb_gsl_with_narray.h'', []) # template_log"
  then show ?thesis
    by (simp add: all_less_upt prelude_log_def template_log_def all_kinds_def upt_rec
        templates_on_def templates_off_def template_source_def)
qed

lemma log_outside:
  assumes "L = prelude_log @ template_log
         \<or> L = prelude_log @ (''rb_gsl_with_narray.h'', []) # template_log"
  shows "\<forall>e\<in>set L. fst e \<notin> {templates_on, template_source, templates_off} \<longrightarrow> snd e = []"
  using assms
  by (auto simp add: prelude_log_def template_log_def all_kinds_def)

lemma block_c_bracketed:
  "\<forall>i<length block_c. block_c ! i = Include template_source \<longrightarrow>
     2 \<le> i \<and> i + 2 < length block_c
     \<and> block_c ! (i - 1) = Include templates_on
     \<and> block_c ! (i + 1) = Include templates_off
     \<and> (\<exists>k\<in>set all_kinds. block_c ! (i - 2) = Define (base_macro k)
                            \<and> block_c ! (i + 2) = Undef (base_macro k))"
  by (simp add: all_less_upt block_c_def all_kinds_def upt_rec
      templates_on_def templates_off_def template_source_def)

subsection \<open>The sample headers\<close>

lemma sample_headers_neutral: "kind_neutral sample_headers"
  unfolding kind_neutral_def
proof (intro allI)
  fix f S k
  show "(base_macro k \<in> sample_headers f S) = (base_macro k \<in> S)"
    by (cases k) (simp_all add: sample_headers_def)
qed

lemma empty_none_selected: "kinds_selected {} = []"
  by (simp add: kinds_selected_def)

lemma sample_log:
  "kind_log sample_headers {}
     = prelude_log @ (''rb_gsl_with_narray.h'', []) # template_log"
  by (simp add: kind_log_def reduce_log_def preprocess_def block_c_def sample_headers_def
      prelude_log_def template_log_def all_kinds_def kinds_selected_def templates_on_def
      templates_off_def template_source_def)

subsection \<open>Three kinds, one inclusion each\<close>

text \<open>
  C1. \<^verbatim>\<open>block.c\<close> instantiates the block template for exactly three element kinds:
  the text of the file includes \<^verbatim>\<open>block_source.c\<close> three times, and when the file is
  preprocessed the first inclusion happens with exactly \<^verbatim>\<open>BASE_DOUBLE\<close> selected, the
  second with exactly \<^verbatim>\<open>BASE_INT\<close> and the third with exactly \<^verbatim>\<open>BASE_UCHAR\<close>: once per
  kind, each time under a different kind-selecting macro. This holds for every build
  that does not predefine a kind macro and whose other files leave the three kind macros
  alone.
\<close>

theorem block_three_kinds:
  assumes "kind_neutral hdr" and "kinds_selected S0 = []"
  shows "instantiations hdr S0 = [[Float64], [Int32], [UInt8]]
       \<and> map (map base_macro) (instantiations hdr S0)
           = [[''BASE_DOUBLE''], [''BASE_INT''], [''BASE_UCHAR'']]
       \<and> length (filter (\<lambda>d. d = Include template_source) block_c) = 3"
proof -
  have "instantiations hdr S0 = [[Float64], [Int32], [UInt8]]"
    using kind_log_eq[OF assms]
    by (auto simp add: instantiations_kind_log prelude_log_no_template template_log_filter
        names_distinct)
  moreover have "length (filter (\<lambda>d. d = Include template_source) block_c) = 3"
    by (simp add: block_c_def templates_on_def templates_off_def template_source_def)
  ultimately show ?thesis by simp
qed

theorem block_three_kinds_witness:
  "kind_neutral sample_headers \<and> kinds_selected {} = []
   \<and> instantiations sample_headers {} = [[Float64], [Int32], [UInt8]]"
  using block_three_kinds[OF sample_headers_neutral empty_none_selected]
        sample_headers_neutral empty_none_selected
  by simp

subsection \<open>Each instantiation in a single-kind environment\<close>

text \<open>
  C10. At every inclusion of \<^verbatim>\<open>block_source.c\<close> by \<^verbatim>\<open>block.c\<close> exactly one of
  \<^verbatim>\<open>BASE_DOUBLE\<close>, \<^verbatim>\<open>BASE_INT\<close>, \<^verbatim>\<open>BASE_UCHAR\<close> is defined, and the inclusion is
  bracketed: the file included just before it is \<^verbatim>\<open>templates_on.h\<close> and the one just
  after it \<^verbatim>\<open>templates_off.h\<close>, both under the same single kind. At every other
  inclusion no kind macro is defined, and none is defined at the end of the file, so no
  kind macro leaks from one instantiation into the next. In the text of the file the
  macro is defined on the line before \<^verbatim>\<open>templates_on.h\<close> and undefined on the line after
  \<^verbatim>\<open>templates_off.h\<close>. As for C1, the build is assumed not to predefine a kind macro
  and the other files to leave the three kind macros alone.
\<close>

theorem instantiation_environment:
  assumes "kind_neutral hdr" and "kinds_selected S0 = []"
  shows "(\<forall>i<length (kind_log hdr S0). fst (kind_log hdr S0 ! i) = template_source \<longrightarrow>
            (\<exists>k\<in>set all_kinds. snd (kind_log hdr S0 ! i) = [k])
            \<and> 0 < i \<and> Suc i < length (kind_log hdr S0)
            \<and> kind_log hdr S0 ! (i - 1) = (templates_on, snd (kind_log hdr S0 ! i))
            \<and> kind_log hdr S0 ! Suc i = (templates_off, snd (kind_log hdr S0 ! i)))
       \<and> (\<forall>e\<in>set (kind_log hdr S0).
            fst e \<notin> {templates_on, template_source, templates_off} \<longrightarrow> snd e = [])
       \<and> kinds_selected (macros (preprocess hdr S0)) = []
       \<and> (\<forall>i<length block_c. block_c ! i = Include template_source \<longrightarrow>
            2 \<le> i \<and> i + 2 < length block_c
            \<and> block_c ! (i - 1) = Include templates_on
            \<and> block_c ! (i + 1) = Include templates_off
            \<and> (\<exists>k\<in>set all_kinds. block_c ! (i - 2) = Define (base_macro k)
                                   \<and> block_c ! (i + 2) = Undef (base_macro k)))"
  using log_bracketed[OF kind_log_eq[OF assms]] log_outside[OF kind_log_eq[OF assms]]
    final_clean[OF assms] block_c_bracketed
  by blast

theorem instantiation_environment_witness:
  "kind_neutral sample_headers \<and> kinds_selected {} = []
   \<and> kind_log sample_headers {} ! 6 = (templates_on, [Float64])
   \<and> kind_log sample_headers {} ! 7 = (template_source, [Float64])
   \<and> kind_log sample_headers {} ! 8 = (templates_off, [Float64])
   \<and> kinds_selected (macros (preprocess sample_headers {})) = []"
proof -
  note env = instantiation_environment[OF sample_headers_neutral empty_none_selected]
  have at7: "kind_log sample_headers {} ! 7 = (template_source, [Float64])"
    and len: "7 < length (kind_log sample_headers {})"
    by (simp_all add: sample_log prelude_log_def template_log_def all_kinds_def)
  from env len at7
  have "kind_log sample_headers {} ! (7 - 1) = (templates_on, snd (kind_log sample_headers {} ! 7))
      \<and> kind_log sample_headers {} ! Suc 7 = (templates_off, snd (kind_log sample_headers {} ! 7))"
    by (metis fst_conv)
  with at7 env sample_headers_neutral empty_none_selected show ?thesis
    by simp
qed

section \<open>Properties of the modelled buffer\<close>

text \<open>
  C3. Whenever \<open>allocate(kind, count)\<close> produces a Buffer, the Buffer is owning, has
  that kind and that count, \<open>get(i)\<close> succeeds for every \<open>0 \<le> i < count\<close>, and \<open>get(i)\<close>
  fails with \<open>OutOfRange\<close> exactly when \<open>i < 0\<close> or \<open>i \<ge> count\<close>. It does produce one
  whenever the storage request can be satisfied; with \<open>count = 0\<close> it always does, and
  every \<open>get\<close> on that zero-length owning Buffer fails with \<open>OutOfRange\<close>.
\<close>

theorem allocate_get:
  "(n * element_size k \<le> avail h \<longrightarrow> (\<exists>b h'. allocate junk h k n = Inr (b, h')))
   \<and> (\<forall>b h'. allocate junk h k n = Inr (b, h') \<longrightarrow>
         elem_kind b = k \<and> count b = n \<and> owner b
         \<and> (\<forall>i. 0 \<le> i \<and> i < int n \<longrightarrow> (\<exists>v. get h' b i = Inr v))
         \<and> (\<forall>i. (get h' b i = Inl OutOfRange) = (i < 0 \<or> int n \<le> i)))
   \<and> (\<exists>b. allocate junk h k 0 = Inr (b, h) \<and> elem_kind b = k \<and> count b = 0 \<and> owner b
           \<and> (\<forall>i. get h b i = Inl OutOfRange))"
proof (intro conjI allI impI)
  assume "n * element_size k \<le> avail h"
  then show "\<exists>b h'. allocate junk h k n = Inr (b, h')"
    by (simp add: allocate_def)
next
  fix b h'
  assume a: "allocate junk h k n = Inr (b, h')"
  show "elem_kind b = k" "count b = n" "owner b"
    using a by (auto simp add: allocate_def split: if_splits)
  have cells: "n = 0 \<or> (\<exists>a. storage b = Some a \<and> regions h' a = Some (map junk [0..<n]))"
    using a by (auto simp add: allocate_def split: if_splits)
  have cnt: "count b = n"
    using a by (auto simp add: allocate_def split: if_splits)
  show "\<exists>v. get h' b i = Inr v" if "0 \<le> i \<and> i < int n" for i
    using that cells cnt by (auto simp add: get_def nat_less_iff)
  show "(get h' b i = Inl OutOfRange) = (i < 0 \<or> int n \<le> i)" for i
    using cells cnt by (auto simp add: get_def nat_less_iff)
next
  show "\<exists>b. allocate junk h k 0 = Inr (b, h) \<and> elem_kind b = k \<and> count b = 0 \<and> owner b
           \<and> (\<forall>i. get h b i = Inl OutOfRange)"
    by (simp add: allocate_def get_def)
qed

theorem allocate_get_witness:
  "3 * element_size Int32 \<le> avail empty_memory
   \<and> (\<exists>b h'. allocate (\<lambda>_. 0) empty_memory Int32 3 = Inr (b, h')
         \<and> count b = 3 \<and> owner b
         \<and> (\<exists>v. get h' b 0 = Inr v) \<and> (\<exists>v. get h' b 2 = Inr v)
         \<and> get h' b 3 = Inl OutOfRange \<and> get h' b (- 1) = Inl OutOfRange)"
proof -
  have room: "3 * element_size Int32 \<le> avail empty_memory"
    by (simp add: empty_memory_def)
  note ag = allocate_get[of 3 Int32 empty_memory "\<lambda>_. 0"]
  from ag room obtain b h' where a: "allocate (\<lambda>_. 0) empty_memory Int32 3 = Inr (b, h')"
    by blast
  from ag a have "count b = 3" "owner b"
    "\<And>i. 0 \<le> i \<and> i < int 3 \<Longrightarrow> \<exists>v. get h' b i = Inr v"
    "\<And>i. (get h' b i = Inl OutOfRange) = (i < 0 \<or> int 3 \<le> i)"
    by blast+
  then have "count b = 3 \<and> owner b
         \<and> (\<exists>v. get h' b 0 = Inr v) \<and> (\<exists>v. get h' b 2 = Inr v)
         \<and> get h' b 3 = Inl OutOfRange \<and> get h' b (- 1) = Inl OutOfRange"
    by simp
  with a room show ?thesis by blast
qed

end
